theory Spec2Isabelle
  imports Complex_Main "HOL-Library.Multiset"
begin

section \<open>Floating-point values and Python errors\<close>

text \<open>
  The notebook computes on numpy \<open>float64\<close> arrays. Finite values are idealised as
  reals; the two infinities and not-a-number are kept apart, because numpy produces them
  silently (a warning, no exception) where Python's own floats would raise. Reals carry no
  signed zero, so a zero divisor is read as \<open>+0.0\<close>.
\<close>

datatype npfloat = Finite real | PosInf | NegInf | NaN

datatype py_error = IndexError | ValueError

fun np_add :: "npfloat \<Rightarrow> npfloat \<Rightarrow> npfloat" where
  "np_add NaN _ = NaN"
| "np_add _ NaN = NaN"
| "np_add (Finite a) (Finite b) = Finite (a + b)"
| "np_add (Finite a) PosInf = PosInf"
| "np_add (Finite a) NegInf = NegInf"
| "np_add PosInf (Finite b) = PosInf"
| "np_add NegInf (Finite b) = NegInf"
| "np_add PosInf PosInf = PosInf"
| "np_add NegInf NegInf = NegInf"
| "np_add PosInf NegInf = NaN"
| "np_add NegInf PosInf = NaN"

fun np_true_divide :: "npfloat \<Rightarrow> npfloat \<Rightarrow> npfloat" where
  "np_true_divide NaN _ = NaN"
| "np_true_divide _ NaN = NaN"
| "np_true_divide (Finite a) (Finite b) =
     (if b = 0 then (if a = 0 then NaN else if 0 < a then PosInf else NegInf)
      else Finite (a / b))"
| "np_true_divide (Finite a) PosInf = Finite 0"
| "np_true_divide (Finite a) NegInf = Finite 0"
| "np_true_divide PosInf (Finite b) = (if 0 \<le> b then PosInf else NegInf)"
| "np_true_divide NegInf (Finite b) = (if 0 \<le> b then NegInf else PosInf)"
| "np_true_divide PosInf PosInf = NaN"
| "np_true_divide PosInf NegInf = NaN"
| "np_true_divide NegInf PosInf = NaN"
| "np_true_divide NegInf NegInf = NaN"

fun np_subtract :: "npfloat \<Rightarrow> npfloat \<Rightarrow> npfloat" where
  "np_subtract NaN _ = NaN"
| "np_subtract _ NaN = NaN"
| "np_subtract (Finite a) (Finite b) = Finite (a - b)"
| "np_subtract (Finite a) PosInf = NegInf"
| "np_subtract (Finite a) NegInf = PosInf"
| "np_subtract PosInf (Finite b) = PosInf"
| "np_subtract NegInf (Finite b) = NegInf"
| "np_subtract PosInf NegInf = PosInf"
| "np_subtract NegInf PosInf = NegInf"
| "np_subtract PosInf PosInf = NaN"
| "np_subtract NegInf NegInf = NaN"

fun np_multiply :: "npfloat \<Rightarrow> npfloat \<Rightarrow> npfloat" where
  "np_multiply NaN _ = NaN"
| "np_multiply _ NaN = NaN"
| "np_multiply (Finite a) (Finite b) = Finite (a * b)"
| "np_multiply (Finite a) PosInf = (if a = 0 then NaN else if 0 < a then PosInf else NegInf)"
| "np_multiply (Finite a) NegInf = (if a = 0 then NaN else if 0 < a then NegInf else PosInf)"
| "np_multiply PosInf (Finite b) = (if b = 0 then NaN else if 0 < b then PosInf else NegInf)"
| "np_multiply NegInf (Finite b) = (if b = 0 then NaN else if 0 < b then NegInf else PosInf)"
| "np_multiply PosInf PosInf = PosInf"
| "np_multiply NegInf NegInf = PosInf"
| "np_multiply PosInf NegInf = NegInf"
| "np_multiply NegInf PosInf = NegInf"

text \<open>\<open>np.sum\<close> and \<open>np.mean\<close> of a one-dimensional array; the mean of an empty
  array is \<open>0.0 / 0\<close>, that is not-a-number.\<close>

definition np_sum :: "npfloat list \<Rightarrow> npfloat" where
  "np_sum xs = foldl np_add (Finite 0) xs"

definition np_mean :: "npfloat list \<Rightarrow> npfloat" where
  "np_mean xs = np_true_divide (np_sum xs) (Finite (real (length xs)))"

section \<open>The consumer type and its control step\<close>

text \<open>The solution of one period, as \<open>getControls\<close> uses it: the consumption
  function \<open>cFunc\<close> of cash-on-hand and permanent income, and its method
  \<open>cFunc.derivativeX\<close>. Both are applied to arrays elementwise.\<close>

record solution_t =
  cFunc :: "real \<Rightarrow> real \<Rightarrow> real"
  cFunc_derivativeX :: "real \<Rightarrow> real \<Rightarrow> real"

text \<open>One step of the notebook on an instance, with the values the instance held when
  the step ran: the persistence its cached \<open>pLvlNextFunc\<close> was built from at a solve
  or simulate call, and the horizon at a simulate call.\<close>

datatype step =
    Construct real real
  | Set_PrstIncCorr real
  | UpdatepLvlNextFunc
  | Solve "real option"
  | Set_T_sim nat
  | InitializeSim
  | Simulate "real option" nat

text \<open>An instance of \<open>PersistentShockConsumerTypeX\<close>: the attributes the notebook
  reads or writes. \<open>pLvlNextFunc\<close> holds the persistence from which the cached function
  of expected next-period permanent income was last rebuilt by the notebook (\<open>None\<close>
  before its first refresh); \<open>history\<close> is a ghost
  field listing the steps applied to the instance, oldest first.\<close>

record agent =
  DiscFac :: real
  PrstIncCorr :: real
  T_sim :: nat
  AgentCount :: nat
  T_cycle :: nat
  pLvlNextFunc :: "real option"
  solution :: "solution_t list"
  t_cycle :: "int list"
  mLvlNow :: "real list"
  pLvlNow :: "real list"
  aLvlNow :: "real list"
  cLvlNow :: "npfloat list"
  MPCnow :: "npfloat list"
  history :: "step list"

text \<open>Boolean-mask indexing of numpy: \<open>arr[these]\<close> keeps the entries whose mask is
  true; \<open>arr[these] = vals\<close> writes the values, in order, to those entries.\<close>

fun mask_select :: "bool list \<Rightarrow> 'a list \<Rightarrow> 'a list" where
  "mask_select (b # bs) (x # xs) = (if b then x # mask_select bs xs else mask_select bs xs)"
| "mask_select _ _ = []"

fun mask_assign :: "bool list \<Rightarrow> 'a list \<Rightarrow> 'a list \<Rightarrow> 'a list" where
  "mask_assign (b # bs) (x # xs) vs =
     (if b then (case vs of [] \<Rightarrow> x # mask_assign bs xs [] | v # vs' \<Rightarrow> v # mask_assign bs xs vs')
      else x # mask_assign bs xs vs)"
| "mask_assign _ xs _ = xs"

text \<open>The body of the loop over \<open>t\<close>. A mask whose length differs from the indexed
  array, and a period beyond the solution list, raise \<open>IndexError\<close>.\<close>

definition getControls_step ::
  "agent \<Rightarrow> nat \<Rightarrow> npfloat list \<times> npfloat list \<Rightarrow> py_error + npfloat list \<times> npfloat list" where
  "getControls_step a t acc =
     (let these = map (\<lambda>tc. int t = tc) (t_cycle a) in
      if length (solution a) \<le> t then Inl IndexError
      else if length (mLvlNow a) \<noteq> length these \<or> length (pLvlNow a) \<noteq> length these
        then Inl IndexError
      else if length (fst acc) \<noteq> length these \<or> length (snd acc) \<noteq> length these
        then Inl IndexError
      else
        let ms = mask_select these (mLvlNow a);
            ps = mask_select these (pLvlNow a);
            sol = solution a ! t
        in Inr (mask_assign these (fst acc) (map Finite (map2 (cFunc sol) ms ps)),
                mask_assign these (snd acc) (map Finite (map2 (cFunc_derivativeX sol) ms ps))))"

fun getControls_loop ::
  "agent \<Rightarrow> nat list \<Rightarrow> npfloat list \<times> npfloat list \<Rightarrow> py_error + npfloat list \<times> npfloat list" where
  "getControls_loop a [] acc = Inr acc"
| "getControls_loop a (t # ts) acc =
     (case getControls_step a t acc of
        Inl e \<Rightarrow> Inl e
      | Inr acc' \<Rightarrow> getControls_loop a ts acc')"

definition getControls :: "agent \<Rightarrow> py_error + agent" where
  "getControls a =
     (let cLvl0 = replicate (AgentCount a) NaN;
          MPC0 = replicate (AgentCount a) NaN
      in case getControls_loop a [0..<T_cycle a] (cLvl0, MPC0) of
           Inl e \<Rightarrow> Inl e
         | Inr acc \<Rightarrow> Inr (a\<lparr>cLvlNow := fst acc, MPCnow := snd acc\<rparr>))"


section \<open>The baseline configuration\<close>



section \<open>The external engine\<close>









section \<open>The experiment: one instance per discount factor\<close>




section \<open>Aggregation\<close>


text \<open>\<open>np.linspace(start, stop, num)\<close> with the end point included.\<close>

definition linspace :: "real \<Rightarrow> real \<Rightarrow> nat \<Rightarrow> real list" where
  "linspace start stop num =
     (if num = 1 then [start]
      else map (\<lambda>i. start + real i * ((stop - start) / real (num - 1))) [0..<num])"

text \<open>Modelled from the spec: \<open>getLorenzShares\<close> of the external toolkit, absent
  from the sources. For each percentile \<open>p\<close> it gives the sum of the asset levels of
  the bottom \<open>\<lceil>p \<cdot> N\<rceil>\<close> agents, sorted ascending, divided by the total asset sum.\<close>

definition getLorenzShares :: "real list \<Rightarrow> real list \<Rightarrow> npfloat list" where
  "getLorenzShares data percentiles =
     (let data_sorted = sort data;
          N = length data;
          total = sum_list data
      in map (\<lambda>p. np_true_divide (Finite (sum_list (take (nat \<lceil>p * real N\<rceil>) data_sorted)))
                                   (Finite total)) percentiles)"

text \<open>Modelled from the spec: \<open>calcSubpopAvg\<close> of the external toolkit, absent from
  the sources. The agents are sorted ascending by the reference value (agents with equal
  reference keep their order in the array); the group of a cutoff pair \<open>(lo, hi)\<close> holds
  the agents after the bottom \<open>\<lceil>lo \<cdot> N\<rceil>\<close> up to the bottom \<open>\<lceil>hi \<cdot> N\<rceil>\<close>, and
  its entry is the arithmetic mean of the group's data.\<close>

definition calcSubpopAvg :: "npfloat list \<Rightarrow> real list \<Rightarrow> (real \<times> real) list \<Rightarrow> npfloat list" where
  "calcSubpopAvg data reference cutoffs =
     (let data_sorted = map fst (sort_key snd (zip data reference));
          N = length data_sorted
      in map (\<lambda>(lo, hi).
               let bot = nat \<lceil>lo * real N\<rceil>; top = nat \<lceil>hi * real N\<rceil>
               in np_mean (take (top - bot) (drop bot data_sorted))) cutoffs)"

record experiment_result =
  AggWealthRatio :: npfloat
  Lorenz :: "npfloat list list"
  Gini :: npfloat
  Avg_MPC :: "npfloat list"

text \<open>The statistics computed from the four flat arrays. \<open>np.stack\<close> raises
  \<open>ValueError\<close> on rows of different length; \<open>Lorenz_init[1]\<close> is read after the
  boundary values have been added, and \<open>np.mean\<close> of that single entry is the mean of
  a one-element array.\<close>

definition aggregate ::
  "npfloat list \<Rightarrow> real list \<Rightarrow> npfloat list \<Rightarrow> real list \<Rightarrow> py_error + experiment_result" where
  "aggregate cLvl_all aLvl_all MPC_all pLvl_all =
     (let ratio = np_true_divide (np_mean (map Finite aLvl_all)) (np_mean (map Finite pLvl_all));
          wealth_percentile0 = linspace (1 / 1000) (999 / 1000) 201;
          Lorenz_init0 = getLorenzShares aLvl_all wealth_percentile0;
          Lorenz_init = [Finite 0] @ Lorenz_init0 @ [Finite 1];
          wealth_percentile = [Finite 0] @ map Finite wealth_percentile0 @ [Finite 1]
      in if length wealth_percentile \<noteq> length Lorenz_init then Inl ValueError
         else Inr \<lparr>AggWealthRatio = ratio,
                   Lorenz = [wealth_percentile, Lorenz_init],
                   Gini = np_subtract (Finite 1)
                            (np_multiply (Finite 2) (np_mean [Lorenz_init ! 1])),
                   Avg_MPC = calcSubpopAvg MPC_all pLvl_all
                     [(0, 2 / 10), (2 / 10, 4 / 10), (4 / 10, 6 / 10), (6 / 10, 8 / 10), (8 / 10, 1)]\<rparr>)"



section \<open>Well-formed inputs and sample data\<close>

text \<open>The control step indexes every per-agent array with a mask as long as
  \<open>t_cycle\<close>, and the solution list with every period of the cycle.\<close>

definition controls_wf :: "agent \<Rightarrow> bool" where
  "controls_wf a \<longleftrightarrow>
     length (t_cycle a) = AgentCount a \<and> length (mLvlNow a) = AgentCount a \<and>
     length (pLvlNow a) = AgentCount a \<and> T_cycle a \<le> length (solution a)"

text \<open>Three agents in a cycle of two periods; the third agent is at no period of the
  cycle.\<close>

definition sample_agent :: agent where
  "sample_agent =
     \<lparr>DiscFac = 97 / 100, PrstIncCorr = 99 / 100, T_sim = 100, AgentCount = 3, T_cycle = 2,
      pLvlNextFunc = None,
      solution = [\<lparr>cFunc = (\<lambda>m p. m + p), cFunc_derivativeX = (\<lambda>m p. 1)\<rparr>,
                  \<lparr>cFunc = (\<lambda>m p. 2 * m), cFunc_derivativeX = (\<lambda>m p. 2)\<rparr>],
      t_cycle = [0, 1, 5], mLvlNow = [1, 2, 3], pLvlNow = [1, 1, 1], aLvlNow = [],
      cLvlNow = [], MPCnow = [], history = []\<rparr>"



section \<open>The control step assigns every agent its period's rule\<close>

lemma mask_select_zip:
  "length ms = length bs \<Longrightarrow> length ps = length bs \<Longrightarrow>
   zip (mask_select bs ms) (mask_select bs ps) = mask_select bs (zip ms ps)"
proof (induction bs arbitrary: ms ps)
  case Nil
  then show ?case by simp
next
  case (Cons b bs)
  then obtain m ms' p ps' where "ms = m # ms'" "ps = p # ps'"
    by (cases ms; cases ps) auto
  with Cons show ?case by simp
qed

lemma length_mask_assign [simp]: "length (mask_assign bs xs vs) = length xs"
  by (induction bs xs vs rule: mask_assign.induct) (auto split: list.splits)

lemma mask_assign_select_nth:
  "length xs = length bs \<Longrightarrow> length ys = length bs \<Longrightarrow> i < length bs \<Longrightarrow>
   mask_assign bs xs (map g (mask_select bs ys)) ! i = (if bs ! i then g (ys ! i) else xs ! i)"
proof (induction bs arbitrary: xs ys i)
  case Nil
  then show ?case by simp
next
  case (Cons b bs)
  then obtain x xs' y ys' where xy: "xs = x # xs'" "ys = y # ys'"
    by (cases xs; cases ys) auto
  show ?case
  proof (cases i)
    case 0
    with xy show ?thesis by simp
  next
    case (Suc j)
    with Cons xy show ?thesis by simp
  qed
qed

lemma getControls_step_ok:
  assumes "t < length (solution a)"
    and "length (t_cycle a) = n" "length (mLvlNow a) = n" "length (pLvlNow a) = n"
    and "length c = n" "length m = n"
  shows "\<exists>c' m'. getControls_step a t (c, m) = Inr (c', m') \<and> length c' = n \<and> length m' = n \<and>
      (\<forall>i<n. c' ! i = (if int t = t_cycle a ! i
                         then Finite (cFunc (solution a ! t) (mLvlNow a ! i) (pLvlNow a ! i))
                         else c ! i) \<and>
              m' ! i = (if int t = t_cycle a ! i
                         then Finite (cFunc_derivativeX (solution a ! t) (mLvlNow a ! i) (pLvlNow a ! i))
                         else m ! i))"
proof -
  let ?these = "map (\<lambda>tc. int t = tc) (t_cycle a)"
  have len: "length ?these = n" using assms by simp
  have sel: "zip (mask_select ?these (mLvlNow a)) (mask_select ?these (pLvlNow a))
             = mask_select ?these (zip (mLvlNow a) (pLvlNow a))"
    using assms by (simp add: mask_select_zip)
  have nth: "mask_assign ?these xs (map Finite (map2 f (mask_select ?these (mLvlNow a))
                 (mask_select ?these (pLvlNow a)))) ! i
             = (if int t = t_cycle a ! i then Finite (f (mLvlNow a ! i) (pLvlNow a ! i)) else xs ! i)"
    if "length xs = n" "i < n" for xs :: "npfloat list" and f i
  proof -
    have "mask_assign ?these xs (map (\<lambda>(x, y). Finite (f x y))
            (mask_select ?these (zip (mLvlNow a) (pLvlNow a)))) ! i
          = (if ?these ! i then (\<lambda>(x, y). Finite (f x y)) (zip (mLvlNow a) (pLvlNow a) ! i) else xs ! i)"
      using that assms by (intro mask_assign_select_nth) simp_all
    then show ?thesis using that assms by (simp add: sel comp_def case_prod_unfold)
  qed
  show ?thesis
    using assms nth by (simp add: getControls_step_def Let_def)
qed

lemma getControls_loop_ok:
  assumes "\<forall>t\<in>set ts. t < length (solution a)"
    and "length (t_cycle a) = n" "length (mLvlNow a) = n" "length (pLvlNow a) = n"
    and "length c = n" "length m = n"
  shows "\<exists>c' m'. getControls_loop a ts (c, m) = Inr (c', m') \<and> length c' = n \<and> length m' = n \<and>
      (\<forall>i<n. c' ! i = (if \<exists>t\<in>set ts. int t = t_cycle a ! i
                         then Finite (cFunc (solution a ! nat (t_cycle a ! i)) (mLvlNow a ! i) (pLvlNow a ! i))
                         else c ! i) \<and>
              m' ! i = (if \<exists>t\<in>set ts. int t = t_cycle a ! i
                         then Finite (cFunc_derivativeX (solution a ! nat (t_cycle a ! i)) (mLvlNow a ! i) (pLvlNow a ! i))
                         else m ! i))"
  using assms
proof (induction ts arbitrary: c m)
  case Nil
  then show ?case by simp
next
  case (Cons t ts)
  from Cons.prems have "t < length (solution a)" by simp
  from getControls_step_ok [OF this Cons.prems(2-6)]
  obtain c1 m1 where s: "getControls_step a t (c, m) = Inr (c1, m1)"
    and l1: "length c1 = n" "length m1 = n"
    and v1: "\<forall>i<n. c1 ! i = (if int t = t_cycle a ! i
                         then Finite (cFunc (solution a ! t) (mLvlNow a ! i) (pLvlNow a ! i))
                         else c ! i) \<and>
              m1 ! i = (if int t = t_cycle a ! i
                         then Finite (cFunc_derivativeX (solution a ! t) (mLvlNow a ! i) (pLvlNow a ! i))
                         else m ! i)"
    by blast
  from Cons.prems have "\<forall>t\<in>set ts. t < length (solution a)" by simp
  from Cons.IH [OF this Cons.prems(2-4) l1]
  obtain c' m' where r: "getControls_loop a ts (c1, m1) = Inr (c', m')"
    and l2: "length c' = n" "length m' = n"
    and v2: "\<forall>i<n. c' ! i = (if \<exists>t\<in>set ts. int t = t_cycle a ! i
                         then Finite (cFunc (solution a ! nat (t_cycle a ! i)) (mLvlNow a ! i) (pLvlNow a ! i))
                         else c1 ! i) \<and>
              m' ! i = (if \<exists>t\<in>set ts. int t = t_cycle a ! i
                         then Finite (cFunc_derivativeX (solution a ! nat (t_cycle a ! i)) (mLvlNow a ! i) (pLvlNow a ! i))
                         else m1 ! i)"
    by blast
  have "getControls_loop a (t # ts) (c, m) = Inr (c', m')"
    using s r by simp
  moreover have "\<forall>i<n. c' ! i = (if \<exists>u\<in>set (t # ts). int u = t_cycle a ! i
                         then Finite (cFunc (solution a ! nat (t_cycle a ! i)) (mLvlNow a ! i) (pLvlNow a ! i))
                         else c ! i) \<and>
              m' ! i = (if \<exists>u\<in>set (t # ts). int u = t_cycle a ! i
                         then Finite (cFunc_derivativeX (solution a ! nat (t_cycle a ! i)) (mLvlNow a ! i) (pLvlNow a ! i))
                         else m ! i)"
  proof (intro allI impI)
    fix i assume i: "i < n"
    show "c' ! i = (if \<exists>u\<in>set (t # ts). int u = t_cycle a ! i
                         then Finite (cFunc (solution a ! nat (t_cycle a ! i)) (mLvlNow a ! i) (pLvlNow a ! i))
                         else c ! i) \<and>
              m' ! i = (if \<exists>u\<in>set (t # ts). int u = t_cycle a ! i
                         then Finite (cFunc_derivativeX (solution a ! nat (t_cycle a ! i)) (mLvlNow a ! i) (pLvlNow a ! i))
                         else m ! i)"
    proof (cases "int t = t_cycle a ! i")
      case True
      then have "nat (t_cycle a ! i) = t" by (simp add: nat_eq_iff)
      with True show ?thesis
        using v1 [rule_format, OF i] v2 [rule_format, OF i] by auto
    next
      case False
      then show ?thesis
        using v1 [rule_format, OF i] v2 [rule_format, OF i] by auto
    qed
  qed
  ultimately show ?case using l2 by blast
qed

text \<open>Claim C10. On an instance whose per-agent arrays all have \<open>AgentCount\<close> entries
  and whose solution list covers the cycle, \<open>getControls\<close> returns two arrays of length
  \<open>AgentCount\<close>: an agent at a period \<open>t\<close> of the cycle holds the period-\<open>t\<close>
  consumption function at its cash-on-hand and permanent income, and that function's
  \<open>derivativeX\<close> at the same pair; an agent at no period of the cycle holds
  not-a-number in both arrays.\<close>
theorem getControls_per_agent:
  assumes "controls_wf a"
  shows "\<exists>c m. getControls a = Inr (a\<lparr>cLvlNow := c, MPCnow := m\<rparr>) \<and>
      length c = AgentCount a \<and> length m = AgentCount a \<and>
      (\<forall>i<AgentCount a.
         if 0 \<le> t_cycle a ! i \<and> t_cycle a ! i < int (T_cycle a)
         then c ! i = Finite (cFunc (solution a ! nat (t_cycle a ! i)) (mLvlNow a ! i) (pLvlNow a ! i)) \<and>
              m ! i = Finite (cFunc_derivativeX (solution a ! nat (t_cycle a ! i)) (mLvlNow a ! i) (pLvlNow a ! i))
         else c ! i = NaN \<and> m ! i = NaN)"
proof -
  let ?n = "AgentCount a"
  have ts: "\<forall>t\<in>set [0..<T_cycle a]. t < length (solution a)"
    using assms by (auto simp: controls_wf_def)
  have lens: "length (t_cycle a) = ?n" "length (mLvlNow a) = ?n" "length (pLvlNow a) = ?n"
    "length (replicate ?n NaN :: npfloat list) = ?n"
    using assms by (simp_all add: controls_wf_def)
  from getControls_loop_ok [OF ts lens(1-3) lens(4) lens(4)]
  obtain c m where r: "getControls_loop a [0..<T_cycle a] (replicate ?n NaN, replicate ?n NaN) = Inr (c, m)"
    and l: "length c = ?n" "length m = ?n"
    and v: "\<forall>i<?n. c ! i = (if \<exists>t\<in>set [0..<T_cycle a]. int t = t_cycle a ! i
                         then Finite (cFunc (solution a ! nat (t_cycle a ! i)) (mLvlNow a ! i) (pLvlNow a ! i))
                         else replicate ?n NaN ! i) \<and>
              m ! i = (if \<exists>t\<in>set [0..<T_cycle a]. int t = t_cycle a ! i
                         then Finite (cFunc_derivativeX (solution a ! nat (t_cycle a ! i)) (mLvlNow a ! i) (pLvlNow a ! i))
                         else replicate ?n NaN ! i)"
    by blast
  have ex: "(\<exists>t\<in>set [0..<T_cycle a]. int t = z) \<longleftrightarrow> 0 \<le> z \<and> z < int (T_cycle a)" for z
  proof
    assume "\<exists>t\<in>set [0..<T_cycle a]. int t = z"
    then show "0 \<le> z \<and> z < int (T_cycle a)" by auto
  next
    assume "0 \<le> z \<and> z < int (T_cycle a)"
    then have "nat z \<in> set [0..<T_cycle a]" "int (nat z) = z" by auto
    then show "\<exists>t\<in>set [0..<T_cycle a]. int t = z" by blast
  qed
  have "getControls a = Inr (a\<lparr>cLvlNow := c, MPCnow := m\<rparr>)"
    using r by (simp add: getControls_def)
  moreover have "\<forall>i<?n.
         if 0 \<le> t_cycle a ! i \<and> t_cycle a ! i < int (T_cycle a)
         then c ! i = Finite (cFunc (solution a ! nat (t_cycle a ! i)) (mLvlNow a ! i) (pLvlNow a ! i)) \<and>
              m ! i = Finite (cFunc_derivativeX (solution a ! nat (t_cycle a ! i)) (mLvlNow a ! i) (pLvlNow a ! i))
         else c ! i = NaN \<and> m ! i = NaN"
  proof (intro allI impI)
    fix i assume i: "i < ?n"
    show "if 0 \<le> t_cycle a ! i \<and> t_cycle a ! i < int (T_cycle a)
         then c ! i = Finite (cFunc (solution a ! nat (t_cycle a ! i)) (mLvlNow a ! i) (pLvlNow a ! i)) \<and>
              m ! i = Finite (cFunc_derivativeX (solution a ! nat (t_cycle a ! i)) (mLvlNow a ! i) (pLvlNow a ! i))
         else c ! i = NaN \<and> m ! i = NaN"
      using v [rule_format, OF i] i unfolding ex by (simp split: if_splits)
  qed
  ultimately show ?thesis using l by blast
qed

text \<open>Claim C10 on the sample instance: the agents at periods 0 and 1 get the values of
  their period's rule, the agent at period 5 keeps not-a-number.\<close>
theorem getControls_per_agent_witness:
  "controls_wf sample_agent \<and>
   (\<exists>c m. getControls sample_agent = Inr (sample_agent\<lparr>cLvlNow := c, MPCnow := m\<rparr>) \<and>
      length c = 3 \<and> length m = 3 \<and>
      c ! 0 = Finite 2 \<and> m ! 0 = Finite 1 \<and> c ! 1 = Finite 4 \<and> m ! 1 = Finite 2 \<and>
      c ! 2 = NaN \<and> m ! 2 = NaN)"
proof -
  have wf: "controls_wf sample_agent"
    by (simp add: controls_wf_def sample_agent_def)
  from getControls_per_agent [OF wf]
  obtain c m where r: "getControls sample_agent = Inr (sample_agent\<lparr>cLvlNow := c, MPCnow := m\<rparr>)"
    and l: "length c = AgentCount sample_agent" "length m = AgentCount sample_agent"
    and v: "\<forall>i<AgentCount sample_agent.
         if 0 \<le> t_cycle sample_agent ! i \<and> t_cycle sample_agent ! i < int (T_cycle sample_agent)
         then c ! i = Finite (cFunc (solution sample_agent ! nat (t_cycle sample_agent ! i))
                        (mLvlNow sample_agent ! i) (pLvlNow sample_agent ! i)) \<and>
              m ! i = Finite (cFunc_derivativeX (solution sample_agent ! nat (t_cycle sample_agent ! i))
                        (mLvlNow sample_agent ! i) (pLvlNow sample_agent ! i))
         else c ! i = NaN \<and> m ! i = NaN"
    by blast
  have n: "AgentCount sample_agent = 3" by (simp add: sample_agent_def)
  have "c ! 0 = Finite 2 \<and> m ! 0 = Finite 1"
    using v [rule_format, of 0] by (simp add: sample_agent_def)
  moreover have "c ! 1 = Finite 4 \<and> m ! 1 = Finite 2"
    using v [rule_format, of 1] by (simp add: sample_agent_def)
  moreover have "c ! 2 = NaN \<and> m ! 2 = NaN"
    using v [rule_format, of 2] by (simp add: sample_agent_def)
  ultimately show ?thesis using wf r l n by auto
qed

section \<open>The experiment loop\<close>









section \<open>Aggregate statistics\<close>

subsection \<open>Means, percentile points and shares\<close>

lemma foldl_np_add_Finite:
  "foldl np_add (Finite s) (map Finite xs) = Finite (s + sum_list xs)"
  by (induction xs arbitrary: s) (simp_all add: add.assoc)

lemma np_mean_Finite:
  "np_mean (map Finite xs) = (if xs = [] then NaN else Finite (sum_list xs / real (length xs)))"
  by (simp add: np_mean_def np_sum_def foldl_np_add_Finite)

lemma np_mean_single: "np_mean [x] = x"
  by (cases x) (simp_all add: np_mean_def np_sum_def)

lemma length_linspace: "length (linspace a b n) = n"
  by (simp add: linspace_def)

lemma linspace_201_nth:
  "i < 201 \<Longrightarrow> linspace (1 / 1000) (999 / 1000) 201 ! i = 1 / 1000 + real i * (499 / 100000)"
  by (simp add: linspace_def)

lemma linspace_201_map:
  "linspace (1 / 1000) (999 / 1000) 201 = map (\<lambda>i. 1 / 1000 + real i * (499 / 100000)) [0..<201]"
  by (simp add: linspace_def)

lemma length_getLorenzShares: "length (getLorenzShares d ps) = length ps"
  by (simp add: getLorenzShares_def Let_def)

lemma getLorenzShares_nth:
  "i < length ps \<Longrightarrow>
   getLorenzShares d ps ! i =
     np_true_divide (Finite (sum_list (take (nat \<lceil>ps ! i * real (length d)\<rceil>) (sort d))))
                    (Finite (sum_list d))"
  by (simp add: getLorenzShares_def Let_def)

lemma getLorenzShares_Finite:
  "sum_list d \<noteq> 0 \<Longrightarrow>
   getLorenzShares d ps =
     map Finite (map (\<lambda>p. sum_list (take (nat \<lceil>p * real (length d)\<rceil>) (sort d)) / sum_list d) ps)"
  by (simp add: getLorenzShares_def Let_def)

subsection \<open>The aggregation step in closed form\<close>

lemma aggregate_Inr:
  "aggregate c a m p =
     Inr \<lparr>AggWealthRatio = np_true_divide (np_mean (map Finite a)) (np_mean (map Finite p)),
          Lorenz = [Finite 0 # map Finite (linspace (1 / 1000) (999 / 1000) 201) @ [Finite 1],
                    Finite 0 # getLorenzShares a (linspace (1 / 1000) (999 / 1000) 201) @ [Finite 1]],
          Gini = np_subtract (Finite 1) (np_multiply (Finite 2)
                   (np_true_divide
                      (Finite (sum_list (take (nat \<lceil>1 / 1000 * real (length a)\<rceil>) (sort a))))
                      (Finite (sum_list a)))),
          Avg_MPC = calcSubpopAvg m p
             [(0, 2 / 10), (2 / 10, 4 / 10), (4 / 10, 6 / 10), (6 / 10, 8 / 10), (8 / 10, 1)]\<rparr>"
proof -
  let ?pts = "linspace (1 / 1000) (999 / 1000) 201"
  let ?sh = "getLorenzShares a ?pts"
  have len: "length ?sh = 201" "length ?pts = 201"
    by (simp_all add: length_getLorenzShares length_linspace)
  have "(Finite 0 # ?sh @ [Finite 1]) ! 1 = ?sh ! 0"
    using len by (simp add: nth_append)
  also have "\<dots> = np_true_divide
        (Finite (sum_list (take (nat \<lceil>1 / 1000 * real (length a)\<rceil>) (sort a))))
        (Finite (sum_list a))"
    using len by (simp add: getLorenzShares_nth linspace_201_nth)
  finally have first: "(Finite 0 # ?sh @ [Finite 1]) ! 1 = np_true_divide
        (Finite (sum_list (take (nat \<lceil>1 / 1000 * real (length a)\<rceil>) (sort a))))
        (Finite (sum_list a))" .
  show ?thesis
    unfolding aggregate_def Let_def
    using len first by (simp add: np_mean_single)
qed

subsection \<open>Sums of the smallest entries\<close>








subsection \<open>The Gini coefficient and the wealth-to-income ratio\<close>




text \<open>Claim C4, amended. The aggregation step never reports an error for its ratio: it
  always returns a result, whose wealth-to-income ratio is not-a-number for an empty
  population, not-a-number or infinite when the permanent-income levels sum to zero, and
  the quotient of the two means otherwise.\<close>
theorem AggWealthRatio_unguarded:
  "map_sum id AggWealthRatio (aggregate cLvl_all aLvl_all MPC_all pLvl_all) =
     Inr (if aLvl_all = [] \<or> pLvl_all = [] then NaN
          else if sum_list pLvl_all = 0
            then (if sum_list aLvl_all = 0 then NaN
                  else if 0 < sum_list aLvl_all then PosInf else NegInf)
          else Finite ((sum_list aLvl_all / real (length aLvl_all))
                        / (sum_list pLvl_all / real (length pLvl_all))))"
  by (simp add: aggregate_Inr np_mean_Finite zero_less_divide_iff)

text \<open>Claim C4 fails: with two agents of permanent income zero the step returns the
  ratio \<open>+inf\<close> and no error.\<close>
theorem AggWealthRatio_zero_income_infinite:
  "map_sum id AggWealthRatio
     (aggregate [Finite 1, Finite 1] [1, 3] [Finite (1 / 2), Finite (1 / 2)] [0, 0]) = Inr PosInf"
  by (simp add: aggregate_Inr np_mean_def np_sum_def)

subsection \<open>The Gini formula on two agents\<close>

lemma shares_two_agents:
  "getLorenzShares [1, 3] (linspace (1 / 1000) (999 / 1000) 201)
   = map Finite (replicate 101 (1 / 4) @ replicate 100 1)"
proof -
  let ?g = "\<lambda>i::nat. 1 / 1000 + real i * (499 / 100000)"
  let ?F = "\<lambda>p::real. sum_list (take (nat \<lceil>p * 2\<rceil>) [1, 3 :: real]) / 4"
  have low: "?F (?g i) = 1 / 4" if "i \<in> set [0..<101]" for i
  proof -
    from that have "i \<le> 100" by (simp only: set_upt atLeastLessThan_iff) arith
    then have "real i \<le> 100" by simp
    then have "\<lceil>?g i * 2\<rceil> = 1" by (simp add: ceiling_eq_iff) 
    then show ?thesis by simp
  qed
  have high: "?F (?g i) = 1" if "i \<in> set [101..<201]" for i
  proof -
    from that have "101 \<le> i \<and> i \<le> 200" by (simp only: set_upt atLeastLessThan_iff) arith
    then have "101 \<le> real i" "real i \<le> 200" by simp_all
    then have "\<lceil>?g i * 2\<rceil> = 2" by (simp add: ceiling_eq_iff)
    then show ?thesis by simp
  qed
  have "[0..<201] = [0..<101] @ [101..<201]"
    using upt_add_eq_append [of 0 101 100] by simp
  then have "map (\<lambda>i. ?F (?g i)) [0..<201]
             = map (\<lambda>i. ?F (?g i)) [0..<101] @ map (\<lambda>i. ?F (?g i)) [101..<201]"
    by (simp only: map_append)
  also have "map (\<lambda>i. ?F (?g i)) [0..<101] = map (\<lambda>i. 1 / 4) [0..<101]"
    by (rule map_cong [OF refl]) (rule low)
  also have "map (\<lambda>i. ?F (?g i)) [101..<201] = map (\<lambda>i. 1) [101..<201]"
    by (rule map_cong [OF refl]) (rule high)
  finally have "map (\<lambda>i. ?F (?g i)) [0..<201] = replicate 101 (1 / 4) @ replicate 100 1"
    by (simp only: map_replicate_const length_upt) simp
  moreover have "getLorenzShares [1, 3] (linspace (1 / 1000) (999 / 1000) 201)
                 = map Finite (map (\<lambda>i. ?F (?g i)) [0..<201])"
    by (simp add: getLorenzShares_Finite linspace_201_map comp_def del: upt_Suc)
  ultimately show ?thesis by simp
qed

text \<open>Claim C1 against the code. For two agents with asset levels 1 and 3 the returned
  coefficient is \<open>1 - 2 \<cdot> 1/4 = 1/2\<close>, computed from the Lorenz share at the first
  percentile point alone, whereas one minus twice the mean of the shares at all 201
  percentile points is \<open>-33/134\<close>.\<close>
theorem Gini_first_share_only:
  "map_sum id Gini
     (aggregate [Finite 1, Finite 1] [1, 3] [Finite (1 / 2), Finite (1 / 2)] [1, 1])
     = Inr (Finite (1 / 2)) \<and>
   np_subtract (Finite 1) (np_multiply (Finite 2)
     (np_mean (getLorenzShares [1, 3] (linspace (1 / 1000) (999 / 1000) 201))))
     = Finite (- (33 / 134))"
proof
  have "\<lceil>1 / 500 :: real\<rceil> = 1" by (simp add: ceiling_eq_iff)
  then show "map_sum id Gini
     (aggregate [Finite 1, Finite 1] [1, 3] [Finite (1 / 2), Finite (1 / 2)] [1, 1])
     = Inr (Finite (1 / 2))"
    by (simp add: aggregate_Inr)
next
  show "np_subtract (Finite 1) (np_multiply (Finite 2)
     (np_mean (getLorenzShares [1, 3] (linspace (1 / 1000) (999 / 1000) 201))))
     = Finite (- (33 / 134))"
    unfolding shares_two_agents np_mean_Finite
    by (simp add: sum_list_replicate)
qed

subsection \<open>The Lorenz curve\<close>






subsection \<open>The whole experiment on unvalidated inputs\<close>








subsection \<open>Reordering the agents\<close>







end
